theory Spec2Isabelle
  imports Main "HOL-Library.Word" "HOL-Library.AList" "HOL-Library.Sublist"
begin

section \<open>JavaScript values\<close>

text \<open>
  The adapter in \<^verbatim>\<open>src/utils/server/index.ts\<close> is one asynchronous function,
  \<^verbatim>\<open>OpenAIStream\<close>, and the error class \<^verbatim>\<open>OpenAIError\<close>. It inspects values
  produced by \<^verbatim>\<open>JSON.parse\<close> and \<^verbatim>\<open>res.json()\<close>, so the embedding starts with
  the part of the JavaScript value universe those two can produce.

  A JavaScript string is a sequence of 16-bit code units. ASCII literals of the source are
  written \<open>ascii ''...''\<close>.
\<close>

type_synonym js_string = "16 word list"
type_synonym bytes = "8 word list"

definition ascii :: "string \<Rightarrow> js_string" where
  "ascii s = map of_char s"

text \<open>
  A number is represented by its canonical rendering (\<^verbatim>\<open>Number::toString\<close>); the two
  things this program can observe of a number are that rendering and whether the number is
  zero, and both zeros render as \<^verbatim>\<open>0\<close>. An object is its list of own properties in
  insertion order, with distinct keys.
\<close>

datatype js_value =
    Undefined
  | Null
  | Boolean bool
  | Number js_string
  | String js_string
  | Array "js_value list"
  | Object "(js_string \<times> js_value) list"

text \<open>
  \<^verbatim>\<open>OpenAIError\<close> (source lines 12 to 24). The constructor hands \<^verbatim>\<open>message\<close> to
  \<^verbatim>\<open>Error\<close> and stores the other three arguments as they are. TypeScript declares
  them \<^verbatim>\<open>string\<close>; at run time they are whatever the upstream JSON held, so they are
  kept as values.
\<close>

record OpenAIError =
  message :: js_string
  name :: js_string
  type :: js_value
  param :: js_value
  code :: js_value

text \<open>
  What can be thrown. The texts carried by \<open>SyntaxError\<close> and \<open>TypeError\<close> stand for
  the engine's message, which differs between engines.
\<close>

datatype js_error =
    SyntaxError string
  | TypeError string
  | Error js_string
  | Thrown OpenAIError

definition and_then :: "js_error + 'a \<Rightarrow> ('a \<Rightarrow> js_error + 'b) \<Rightarrow> js_error + 'b" where
  "and_then r f = (case r of Inl e \<Rightarrow> Inl e | Inr v \<Rightarrow> f v)"

subsection \<open>Property access\<close>

text \<open>
  \<^verbatim>\<open>v.k\<close> for the property names the source uses (\<^verbatim>\<open>error\<close>, \<^verbatim>\<open>message\<close>,
  \<^verbatim>\<open>type\<close>, \<^verbatim>\<open>param\<close>, \<^verbatim>\<open>code\<close>, \<^verbatim>\<open>value\<close>, \<^verbatim>\<open>statusText\<close>,
  \<^verbatim>\<open>choices\<close>, \<^verbatim>\<open>finish_reason\<close>, \<^verbatim>\<open>delta\<close>, \<^verbatim>\<open>content\<close>). None of them is a
  property of a built-in prototype, so on anything but an object with that own property the
  access yields \<^verbatim>\<open>undefined\<close>; on \<^verbatim>\<open>null\<close> and \<^verbatim>\<open>undefined\<close> it throws.
\<close>

fun get_member :: "js_value \<Rightarrow> js_string \<Rightarrow> js_error + js_value" where
  "get_member Undefined k = Inl (TypeError ''Cannot read properties of undefined'')"
| "get_member Null k = Inl (TypeError ''Cannot read properties of null'')"
| "get_member (Object kvs) k = (case map_of kvs k of None \<Rightarrow> Inr Undefined | Some v \<Rightarrow> Inr v)"
| "get_member v k = Inr Undefined"

text \<open>
  \<^verbatim>\<open>v[0]\<close>: the first element of an array, the first code unit of a string, the
  property \<^verbatim>\<open>"0"\<close> of an object.
\<close>

fun get_index0 :: "js_value \<Rightarrow> js_error + js_value" where
  "get_index0 Undefined = Inl (TypeError ''Cannot read properties of undefined'')"
| "get_index0 Null = Inl (TypeError ''Cannot read properties of null'')"
| "get_index0 (Array []) = Inr Undefined"
| "get_index0 (Array (x # xs)) = Inr x"
| "get_index0 (String []) = Inr Undefined"
| "get_index0 (String (u # us)) = Inr (String [u])"
| "get_index0 (Object kvs) = (case map_of kvs (ascii ''0'') of None \<Rightarrow> Inr Undefined | Some v \<Rightarrow> Inr v)"
| "get_index0 v = Inr Undefined"

text \<open>Truthiness, as tested by \<^verbatim>\<open>if (result.error)\<close> and by \<^verbatim>\<open>||\<close>.\<close>

fun truthy :: "js_value \<Rightarrow> bool" where
  "truthy Undefined = False"
| "truthy Null = False"
| "truthy (Boolean b) = b"
| "truthy (Number r) = (r \<noteq> ascii ''0'')"
| "truthy (String s) = (s \<noteq> [])"
| "truthy (Array xs) = True"
| "truthy (Object kvs) = True"

subsection \<open>Conversion to string\<close>

text \<open>
  \<^verbatim>\<open>ToString\<close>, used by template literals, by the \<^verbatim>\<open>Error\<close> constructor and by
  \<^verbatim>\<open>TextEncoder.encode\<close>. An array joins its elements with commas, \<^verbatim>\<open>null\<close> and
  \<^verbatim>\<open>undefined\<close> elements contributing nothing. A parsed object renders as
  \<^verbatim>\<open>[object Object]\<close> through \<^verbatim>\<open>Object.prototype.toString\<close>, unless it has an own
  property \<^verbatim>\<open>toString\<close>: that property is parsed data, never callable, and the
  inherited \<^verbatim>\<open>valueOf\<close> returns the object itself, so the conversion throws.
\<close>

fun to_string :: "js_value \<Rightarrow> js_error + js_string"
  and join :: "js_value list \<Rightarrow> js_error + js_string"
  and join_element :: "js_value \<Rightarrow> js_error + js_string" where
  "to_string Undefined = Inr (ascii ''undefined'')"
| "to_string Null = Inr (ascii ''null'')"
| "to_string (Boolean b) = Inr (if b then ascii ''true'' else ascii ''false'')"
| "to_string (Number r) = Inr r"
| "to_string (String s) = Inr s"
| "to_string (Array xs) = join xs"
| "to_string (Object kvs) =
     (if map_of kvs (ascii ''toString'') \<noteq> None
      then Inl (TypeError ''Cannot convert object to primitive value'')
      else Inr (ascii ''[object Object]''))"
| "join [] = Inr []"
| "join [x] = join_element x"
| "join (x # y # ys) =
     (case join_element x of Inl e \<Rightarrow> Inl e
      | Inr s \<Rightarrow> (case join (y # ys) of Inl e \<Rightarrow> Inl e | Inr t \<Rightarrow> Inr (s @ ascii '','' @ t)))"
| "join_element Undefined = Inr []"
| "join_element Null = Inr []"
| "join_element v = to_string v"

subsection \<open>The text encoder and decoder\<close>

text \<open>
  \<^verbatim>\<open>TextEncoder.encode\<close> converts its argument to a string of Unicode scalar values (an
  unpaired surrogate becomes U+FFFD, a surrogate pair one supplementary code point) and
  writes it in UTF-8. The argument defaults to the empty string when it is \<^verbatim>\<open>undefined\<close>.
\<close>

definition is_high :: "16 word \<Rightarrow> bool" where
  "is_high u = (0xD800 \<le> unat u \<and> unat u \<le> 0xDBFF)"

definition is_low :: "16 word \<Rightarrow> bool" where
  "is_low u = (0xDC00 \<le> unat u \<and> unat u \<le> 0xDFFF)"

fun code_points :: "js_string \<Rightarrow> nat list" where
  "code_points [] = []"
| "code_points (u # us) =
     (if is_high u then
        (case us of
           [] \<Rightarrow> [0xFFFD]
         | v # vs \<Rightarrow>
             if is_low v
             then (0x10000 + (unat u - 0xD800) * 0x400 + (unat v - 0xDC00)) # code_points vs
             else 0xFFFD # code_points us)
      else if is_low u then 0xFFFD # code_points us
      else unat u # code_points us)"

definition utf8 :: "nat \<Rightarrow> bytes" where
  "utf8 c =
     (if c < 0x80 then [of_nat c]
      else if c < 0x800 then [of_nat (0xC0 + c div 0x40), of_nat (0x80 + c mod 0x40)]
      else if c < 0x10000 then
        [of_nat (0xE0 + c div 0x1000), of_nat (0x80 + c div 0x40 mod 0x40),
         of_nat (0x80 + c mod 0x40)]
      else
        [of_nat (0xF0 + c div 0x40000), of_nat (0x80 + c div 0x1000 mod 0x40),
         of_nat (0x80 + c div 0x40 mod 0x40), of_nat (0x80 + c mod 0x40)])"

definition utf8_encode :: "js_string \<Rightarrow> bytes" where
  "utf8_encode s = concat (map utf8 (code_points s))"

definition TextEncoder_encode :: "js_value \<Rightarrow> js_error + bytes" where
  "TextEncoder_encode input =
     (case input of
        Undefined \<Rightarrow> Inr []
      | _ \<Rightarrow> and_then (to_string input) (\<lambda>s. Inr (utf8_encode s)))"

text \<open>
  \<^verbatim>\<open>TextDecoder.decode\<close> is only ever applied to \<^verbatim>\<open>result?.value\<close>, a property of
  parsed JSON. Without an argument it returns the empty string; a parsed value is never a
  buffer, and for anything that is not a buffer the call throws.
\<close>

definition TextDecoder_decode :: "js_value \<Rightarrow> js_error + js_string" where
  "TextDecoder_decode input =
     (case input of
        Undefined \<Rightarrow> Inr []
      | _ \<Rightarrow> Inl (TypeError ''The input argument must be an ArrayBuffer or ArrayBufferView''))"

text \<open>
  \<^verbatim>\<open>decoder.decode(chunk)\<close> (source line 196) decodes one network chunk on its own: the
  decoder is not in streaming mode, so nothing is carried over from one chunk to the next.
  It is the UTF-8 decoder of the Encoding standard. A lead byte announces one to three
  continuation bytes and, for \<^verbatim>\<open>E0\<close>, \<^verbatim>\<open>ED\<close>, \<^verbatim>\<open>F0\<close> and \<^verbatim>\<open>F4\<close>, a narrower range for
  the first of them; a byte outside the expected range yields U+FFFD and is then read again
  as a first byte; a sequence still open at the end of the chunk yields U+FFFD. The state
  of an open sequence is the code point so far, the number of bytes still needed, and the
  range for the next byte.
\<close>

definition first_byte :: "8 word \<Rightarrow> nat list \<times> (nat \<times> nat \<times> nat \<times> nat) option" where
  "first_byte b =
     (let n = unat b in
      if n \<le> 0x7F then ([n], None)
      else if 0xC2 \<le> n \<and> n \<le> 0xDF then ([], Some (n - 0xC0, 1, 0x80, 0xBF))
      else if 0xE0 \<le> n \<and> n \<le> 0xEF then
        ([], Some (n - 0xE0, 2, if n = 0xE0 then 0xA0 else 0x80, if n = 0xED then 0x9F else 0xBF))
      else if 0xF0 \<le> n \<and> n \<le> 0xF4 then
        ([], Some (n - 0xF0, 3, if n = 0xF0 then 0x90 else 0x80, if n = 0xF4 then 0x8F else 0xBF))
      else ([0xFFFD], None))"

fun utf8_decode :: "(nat \<times> nat \<times> nat \<times> nat) option \<Rightarrow> bytes \<Rightarrow> nat list" where
  "utf8_decode None [] = []"
| "utf8_decode (Some open_sequence) [] = [0xFFFD]"
| "utf8_decode None (b # bs) = (case first_byte b of (out, st) \<Rightarrow> out @ utf8_decode st bs)"
| "utf8_decode (Some (cp, needed, lower, upper)) (b # bs) =
     (if lower \<le> unat b \<and> unat b \<le> upper then
        (if needed = 1 then (cp * 0x40 + (unat b - 0x80)) # utf8_decode None bs
         else utf8_decode (Some (cp * 0x40 + (unat b - 0x80), needed - 1, 0x80, 0xBF)) bs)
      else (case first_byte b of (out, st) \<Rightarrow> 0xFFFD # out @ utf8_decode st bs))"

text \<open>
  A byte order mark at the start of the decoded chunk is dropped (\<^verbatim>\<open>ignoreBOM\<close> is
  false by default), and each code point becomes one code unit or a surrogate pair.
\<close>

definition strip_bom :: "nat list \<Rightarrow> nat list" where
  "strip_bom cs = (case cs of c # cs' \<Rightarrow> if c = 0xFEFF then cs' else cs | [] \<Rightarrow> [])"

definition code_units :: "nat \<Rightarrow> js_string" where
  "code_units c =
     (if c < 0x10000 then [of_nat c]
      else [of_nat (0xD800 + (c - 0x10000) div 0x400), of_nat (0xDC00 + (c - 0x10000) mod 0x400)])"

definition TextDecoder_decode_chunk :: "bytes \<Rightarrow> js_string" where
  "TextDecoder_decode_chunk chunk = concat (map code_units (strip_bom (utf8_decode None chunk)))"

section \<open>The outbound request\<close>

text \<open>
  The constants \<^verbatim>\<open>OPENAI_API_HOST\<close>, \<^verbatim>\<open>OPENAI_API_TYPE\<close>,
  \<^verbatim>\<open>OPENAI_API_VERSION\<close>, \<^verbatim>\<open>OPENAI_ORGANIZATION\<close> and \<^verbatim>\<open>AZURE_DEPLOYMENT_ID\<close>
  are imported from \<^verbatim>\<open>../app/const\<close>, and the fallback key is read from
  \<^verbatim>\<open>process.env.OPENAI_API_KEY\<close>. Their values are not part of this file: they are
  parameters of the model, strings as the specification's configuration section lists
  them, the environment variable possibly unset.
\<close>

record config =
  OPENAI_API_HOST :: js_string
  OPENAI_API_TYPE :: js_string
  OPENAI_API_VERSION :: js_string
  OPENAI_ORGANIZATION :: js_string
  AZURE_DEPLOYMENT_ID :: js_string
  env_OPENAI_API_KEY :: "js_string option"

text \<open>
  Of \<^verbatim>\<open>OpenAIModel\<close> the function reads the field \<^verbatim>\<open>id\<close> only (\<open>model_id\<close> here). A \<^verbatim>\<open>Message\<close> is
  never inspected, only copied into the request, so it is an arbitrary value here.
\<close>

record OpenAIModel =
  model_id :: js_string

type_synonym Message = js_value

record request =
  url :: js_string
  headers :: "(js_string \<times> js_string) list"
  http_method :: js_string
  body :: js_value

text \<open>The content of the system message (source lines 56 to 140), character for character.\<close>

definition rubric :: js_string where
  \<open>rubric = ascii ''{
            "name": "IELTS Writing Excellence Assessor",
            "description": "This assessor is an expert in evaluating IELTS writing tasks, utilizing a deep understanding of IELTS writing standards and significant experience in guiding students towards superior writing skills and improved IELTS scores.",
            "evaluationCriteria": {
                "Task Achievement": {
                    "description": "Assesses the extent to which the input answers the question, maintaining a clear position throughout, including supportive details and examples.",
                    "scoreRange": "0-9"
                },
                "Coherence and Cohesion": {
                    "description": "Examines logical organization, effective paragraphing, clearly defined central ideas for each paragraph, and appropriate use of cohesive devices.",
                    "scoreRange": "0-9"
                },
                "Lexical Resource": {
                    "description": "Evaluates the range and precision of vocabulary, suitability of word choice, and the diversity in language use.",
                    "scoreRange": "0-9"
                },
                "Grammatical Range and Accuracy": {
                    "description": "Investigates the range and accuracy of grammatical structures, considering any grammatical errors, and the complexity of grammar used.",
                    "scoreRange": "0-9"
                }
            },
            "inputParams": {
                "%question": "The provided IELTS writing question is represented as '%question'.",
                "%answer": "The student's response to the question is represented as '%answer'."
            },
            "outputs": {
                "score": {
                    "description": "The score given to the student's writing based on the IELTS writing criteria.",
                    "range": "0-9",
                    "score": "%number between 0-9"
                },
                "scoringRationale": {
                    "description": "An explanation for the score under each evaluation criterion and an overall justification in accordance with IELTS writing standards.",
                    "outputExample": [
                        {
                            "criterion": "Task Fulfillment",
                            "score": "%number between 0-9",
                            "rationale": "The student's response is well-structured and thoroughly developed, showcasing a clear viewpoint and inclusive of relevant details and examples."
                        },
                        {
                            "criterion": "Coherence and Cohesion",
                            "score": "%number between 0-9",
                            "rationale": "The student's response is logically structured, with a clear central theme within each paragraph and apt use of cohesive devices."
                        },
                        {
                            "criterion": "Lexical Resource",
                            "score": "%number between 0-9",
                            "rationale": "The student's response demonstrates a wide range of vocabulary, with appropriate word selection and lexical variations."
                        },
                        {
                            "criterion": "Grammatical Range and Accuracy",
                            "score": "%number between 0-9",
                            "rationale": "The student's response demonstrates a wide range of grammar, with few grammatical errors and the complexity of used grammatical structures."
                        },
                        {
                            "criterion": "Overall",
                            "score": "%number between 0-9",
                            "rationale": "The overall student's response is coherently organized, well-elaborated, exhibits broad range of vocabulary and grammar with minimal errors."
                        }
                    ]
                },
                "errorSentenceRevision": {
                    "description": "Revisions of the student's writing based on IELTS standards, presented in markdown format with erroneous parts highlighted.",
                    "outputFormat": "markdown table format",
                    "outputRequirements": [
                        "Only sentences with errors need to be included. Sentences without errors should be ignored in the output.",
                        "The output should be in HTML Table format. The revised words or sentences should be highlighted using the <span> tag with a style attribute of 'color:#7B68EE;background:black'."
                    ],
                    "outputExample": [{
                        "original": "%(the original sentence)",
                        "revised": "%(the revised sentence)",
                        "reason": "%(the reason for revision)",
                        "errorType": "%(the type of error)"
                    }]
                },
                "benchmarkEssay": {
                    "description": "A model essay adhering to IELTS writing standards that showcases an ideal response, presented in markdown format.",
                    "outputFormat": "markdown"
                }
            },
            "requirements": [
                "DO REMEMBER OUTPUT THE RESULT IN **markdown** FORMAT."
            ]
        }
        ''\<close>

text \<open>Source lines 33 to 36.\<close>

definition request_url :: "config \<Rightarrow> js_string" where
  "request_url cfg =
     (if OPENAI_API_TYPE cfg = ascii ''azure''
      then OPENAI_API_HOST cfg @ ascii ''/openai/deployments/'' @ AZURE_DEPLOYMENT_ID cfg
             @ ascii ''/chat/completions?api-version='' @ OPENAI_API_VERSION cfg
      else OPENAI_API_HOST cfg @ ascii ''/v1/chat/completions'')"

text \<open>
  \<^verbatim>\<open>key ? key : process.env.OPENAI_API_KEY\<close> inside a template literal: the empty string
  is falsy, and an unset variable is rendered as \<^verbatim>\<open>undefined\<close>.
\<close>

definition effective_key :: "config \<Rightarrow> js_string \<Rightarrow> js_string" where
  "effective_key cfg key =
     (if key \<noteq> [] then key
      else (case env_OPENAI_API_KEY cfg of None \<Rightarrow> ascii ''undefined'' | Some k \<Rightarrow> k))"

text \<open>
  Source lines 38 to 49. Spreading \<^verbatim>\<open>false\<close> or the empty string adds no property, and
  the four header names are distinct, so the object literal is the concatenation of the
  parts that are present.
\<close>

definition request_headers :: "config \<Rightarrow> js_string \<Rightarrow> (js_string \<times> js_string) list" where
  "request_headers cfg key =
     [(ascii ''Content-Type'', ascii ''application/json'')]
     @ (if OPENAI_API_TYPE cfg = ascii ''openai''
        then [(ascii ''Authorization'', ascii ''Bearer '' @ effective_key cfg key)] else [])
     @ (if OPENAI_API_TYPE cfg = ascii ''azure''
        then [(ascii ''api-key'', effective_key cfg key)] else [])
     @ (if OPENAI_API_TYPE cfg = ascii ''openai'' \<and> OPENAI_ORGANIZATION cfg \<noteq> []
        then [(ascii ''OpenAI-Organization'', OPENAI_ORGANIZATION cfg)] else [])"

text \<open>
  Source lines 51 to 148: the object handed to \<^verbatim>\<open>JSON.stringify\<close>. An object literal
  sets its properties from left to right; setting a name that is already there replaces
  the value and keeps the position, which is what \<open>AList.update\<close> does. The last
  property, \<^verbatim>\<open>model: 'gpt-3.5-turbo-16k'\<close>, therefore replaces the spread
  \<^verbatim>\<open>model: model.id\<close>.
\<close>

definition system_message :: js_value where
  "system_message =
     Object [(ascii ''role'', String (ascii ''system'')), (ascii ''content'', String rubric)]"

definition request_body :: "config \<Rightarrow> OpenAIModel \<Rightarrow> Message list \<Rightarrow> js_value" where
  "request_body cfg model messages =
     Object
      (AList.update (ascii ''model'') (String (ascii ''gpt-3.5-turbo-16k''))
      (AList.update (ascii ''stream'') (Boolean True)
      (AList.update (ascii ''temperature'') (Number (ascii ''0''))
      (AList.update (ascii ''max_tokens'') (Number (ascii ''4000''))
      (AList.update (ascii ''messages'') (Array (system_message # messages))
      (if OPENAI_API_TYPE cfg = ascii ''openai''
       then [(ascii ''model'', String (model_id model))] else []))))))"

text \<open>
  The request of one call. \<^verbatim>\<open>systemPrompt\<close> and \<^verbatim>\<open>temperature\<close> are parameters of
  \<^verbatim>\<open>OpenAIStream\<close> and so of this function; the source never reads them.
\<close>

definition build_request ::
  "config \<Rightarrow> OpenAIModel \<Rightarrow> js_string \<Rightarrow> js_string \<Rightarrow> js_string \<Rightarrow> Message list \<Rightarrow> request" where
  "build_request cfg model systemPrompt temperature key messages =
     \<lparr>url = request_url cfg,
      headers = request_headers cfg key,
      http_method = ascii ''POST'',
      body = request_body cfg model messages\<rparr>"

section \<open>The response\<close>

text \<open>
  Of the response the function reads \<^verbatim>\<open>res.status\<close>; for a status other than 200 it
  awaits \<^verbatim>\<open>res.json()\<close>, which yields a value or rejects; for status 200 it iterates
  over \<^verbatim>\<open>res.body\<close>, which yields the body in the chunks in which it arrives from the
  network (\<open>body_chunks\<close> here, \<open>body\<close> being the body of the request).
\<close>

record response =
  status :: nat
  statusText :: js_string
  json :: "js_error + js_value"
  body_chunks :: "bytes list"

text \<open>
  Each chunk is decoded on its own and fed to the parser of the \<^verbatim>\<open>eventsource-parser\<close>
  package (source lines 193 to 197), which calls \<^verbatim>\<open>onParse\<close> once for each event it
  recognises, in order. The package is not part of this repository: the parser is a
  parameter, the function from the texts fed to it, in order, to the events it reports.
  An event of type \<^verbatim>\<open>event\<close> is represented by what \<^verbatim>\<open>JSON.parse\<close> makes of its
  \<^verbatim>\<open>data\<close> field: the syntax error it throws, or the value it returns.
\<close>

datatype sse_event =
    Event "js_error + js_value"
  | ReconnectInterval

definition events :: "(js_string list \<Rightarrow> sse_event list) \<Rightarrow> response \<Rightarrow> sse_event list" where
  "events parser res = parser (map TextDecoder_decode_chunk (body_chunks res))"

section \<open>The readable stream and its controller\<close>

text \<open>
  \<^verbatim>\<open>new ReadableStream({start})\<close> creates a stream with a default controller. Of the
  controller's internal slots three matter: the state of the stream, the queue of chunks
  not yet read, and the flag \<^verbatim>\<open>closeRequested\<close>. The three controller methods the
  source calls follow the Streams standard.
\<close>

datatype stream_state = Readable | Closed | Errored js_error

record ReadableStream =
  state :: stream_state
  queue :: "bytes list"
  closeRequested :: bool

definition new_ReadableStream :: ReadableStream where
  "new_ReadableStream = \<lparr>state = Readable, queue = [], closeRequested = False\<rparr>"

definition CanCloseOrEnqueue :: "ReadableStream \<Rightarrow> bool" where
  "CanCloseOrEnqueue s = (\<not> closeRequested s \<and> state s = Readable)"

text \<open>
  \<^verbatim>\<open>controller.close()\<close> throws unless the stream is readable with no close requested.
  Otherwise it records the request, and closes the stream at once when the queue is
  empty; with chunks still queued the stream stays readable until the last one is read.
\<close>

definition controller_close :: "ReadableStream \<Rightarrow> js_error + ReadableStream" where
  "controller_close s =
     (if \<not> CanCloseOrEnqueue s then Inl (TypeError ''The stream is not in a state that permits close'')
      else Inr (s\<lparr>closeRequested := True, state := (if queue s = [] then Closed else Readable)\<rparr>))"

text \<open>
  \<^verbatim>\<open>controller.enqueue(chunk)\<close> throws under the same condition, and otherwise appends
  the chunk to the queue. (A chunk handed directly to a waiting reader is a chunk queued
  and read at once.)
\<close>

definition controller_enqueue :: "bytes \<Rightarrow> ReadableStream \<Rightarrow> js_error + ReadableStream" where
  "controller_enqueue chunk s =
     (if \<not> CanCloseOrEnqueue s then Inl (TypeError ''The stream is not in a state that permits enqueue'')
      else Inr (s\<lparr>queue := queue s @ [chunk]\<rparr>))"

text \<open>
  \<^verbatim>\<open>controller.error(e)\<close> does nothing unless the stream is readable; if it is, the
  queue is emptied and the stream is errored with \<open>e\<close>.
\<close>

definition controller_error :: "js_error \<Rightarrow> ReadableStream \<Rightarrow> ReadableStream" where
  "controller_error e s =
     (if state s \<noteq> Readable then s else s\<lparr>queue := [], state := Errored e\<rparr>)"

subsection \<open>The consumer\<close>

text \<open>
  A read of the stream's reader: the next queued chunk (closing the stream when a close
  was requested and this was the last chunk), the end of the stream, the stream's error,
  or nothing yet.
\<close>

datatype read_result = Chunk bytes | Done | Rejected js_error | Waiting

definition reader_read :: "ReadableStream \<Rightarrow> read_result \<times> ReadableStream" where
  "reader_read s =
     (case state s of
        Closed \<Rightarrow> (Done, s)
      | Errored e \<Rightarrow> (Rejected e, s)
      | Readable \<Rightarrow>
          (case queue s of
             [] \<Rightarrow> (Waiting, s)
           | c # q \<Rightarrow>
               (Chunk c, s\<lparr>queue := q,
                            state := (if closeRequested s \<and> q = [] then Closed else Readable)\<rparr>)))"

section \<open>The stream adapter\<close>

subsection \<open>The event handler\<close>

text \<open>
  \<^verbatim>\<open>json.choices[0]\<close>, \<^verbatim>\<open>json.choices[0].finish_reason\<close> and
  \<^verbatim>\<open>json.choices[0].delta.content\<close> (source lines 180 and 184).
\<close>

definition choices_0 :: "js_value \<Rightarrow> js_error + js_value" where
  "choices_0 j = and_then (get_member j (ascii ''choices'')) get_index0"

definition finish_reason :: "js_value \<Rightarrow> js_error + js_value" where
  "finish_reason j = and_then (choices_0 j) (\<lambda>c. get_member c (ascii ''finish_reason''))"

definition delta_content :: "js_value \<Rightarrow> js_error + js_value" where
  "delta_content j =
     and_then (choices_0 j) (\<lambda>c.
     and_then (get_member c (ascii ''delta'')) (\<lambda>d.
     get_member d (ascii ''content'')))"

text \<open>\<^verbatim>\<open>v != null\<close>: neither \<^verbatim>\<open>null\<close> nor \<^verbatim>\<open>undefined\<close>.\<close>

definition not_nullish :: "js_value \<Rightarrow> bool" where
  "not_nullish v = (v \<noteq> Null \<and> v \<noteq> Undefined)"

text \<open>
  The body of the \<^verbatim>\<open>try\<close> block of \<^verbatim>\<open>onParse\<close> (source lines 179 to 186): the new
  stream when it completes, the error when anything in it throws. Nothing in it changes the
  stream before it throws.
\<close>

definition onParse_try :: "js_error + js_value \<Rightarrow> ReadableStream \<Rightarrow> js_error + ReadableStream" where
  "onParse_try data s =
     and_then data (\<lambda>j.
     and_then (finish_reason j) (\<lambda>r.
       if not_nullish r then controller_close s
       else
         and_then (delta_content j) (\<lambda>text.
         and_then (TextEncoder_encode text) (\<lambda>chunk.
         controller_enqueue chunk s))))"

text \<open>\<^verbatim>\<open>onParse\<close> (source lines 174 to 191).\<close>

fun onParse :: "sse_event \<Rightarrow> ReadableStream \<Rightarrow> ReadableStream" where
  "onParse ReconnectInterval s = s"
| "onParse (Event data) s =
     (case onParse_try data s of
        Inr s' \<Rightarrow> s'
      | Inl e \<Rightarrow> controller_error e s)"

subsection \<open>Producer and consumer\<close>

text \<open>
  \<^verbatim>\<open>start\<close> (source lines 173 to 198) is asynchronous: it handles the events as the
  body arrives, and between any two of them the consumer of the stream may read. The
  pair below is the stream together with the chunks the consumer has received so far. A
  schedule \<open>ks\<close> gives, for each event in turn, how many reads the consumer performs
  before that event is handled; a read that finds the queue empty changes nothing. When the
  schedule is exhausted the consumer does not read until the body ends.
\<close>

type_synonym consumer = "ReadableStream \<times> bytes list"

definition pull :: "consumer \<Rightarrow> consumer" where
  "pull sc =
     (case sc of (s, got) \<Rightarrow>
        (case reader_read s of
           (Chunk c, s') \<Rightarrow> (s', got @ [c])
         | (_, s') \<Rightarrow> (s', got)))"

fun start :: "nat list \<Rightarrow> sse_event list \<Rightarrow> consumer \<Rightarrow> consumer" where
  "start ks [] sc = sc"
| "start [] (e # es) sc = (case sc of (s, got) \<Rightarrow> start [] es (onParse e s, got))"
| "start (k # ks) (e # es) sc =
     (case (pull ^^ k) sc of (s, got) \<Rightarrow> start ks es (onParse e s, got))"

text \<open>
  How the stream ends for a consumer that goes on reading after the body has ended:
  normally, with the stream's error, or never (the stream is still readable and nothing
  will close it).
\<close>

datatype ending = Ended | Failed js_error | Never

definition read_to_end :: "consumer \<Rightarrow> bytes list \<times> ending" where
  "read_to_end sc =
     (case sc of (s, got) \<Rightarrow>
        (got @ queue s,
         (case state s of
            Errored e \<Rightarrow> Failed e
          | Closed \<Rightarrow> Ended
          | Readable \<Rightarrow> if closeRequested s then Ended else Never)))"

text \<open>
  The stream that \<^verbatim>\<open>OpenAIStream\<close> returns, as the consumer observes it: for every
  schedule of reads, the chunks received and the way the stream ends.
\<close>

type_synonym byte_stream = "nat list \<Rightarrow> bytes list \<times> ending"

definition stream_of :: "sse_event list \<Rightarrow> byte_stream" where
  "stream_of evs = (\<lambda>ks. read_to_end (start ks evs (new_ReadableStream, [])))"

subsection \<open>The exposed operation\<close>

text \<open>
  The constructor of \<^verbatim>\<open>OpenAIError\<close>. \<^verbatim>\<open>super(message)\<close> converts a message that is
  not \<^verbatim>\<open>undefined\<close> to a string; without a message the error inherits the empty one.
\<close>

definition new_OpenAIError ::
  "js_value \<Rightarrow> js_value \<Rightarrow> js_value \<Rightarrow> js_value \<Rightarrow> js_error + OpenAIError" where
  "new_OpenAIError m t p c =
     and_then (case m of Undefined \<Rightarrow> Inr [] | _ \<Rightarrow> to_string m) (\<lambda>msg.
     Inr \<lparr>message = msg, name = ascii ''OpenAIError'', type = t, param = p, code = c\<rparr>)"

text \<open>\<^verbatim>\<open>v?.k\<close>.\<close>

definition get_member_opt :: "js_value \<Rightarrow> js_string \<Rightarrow> js_error + js_value" where
  "get_member_opt v k = (if not_nullish v then get_member v k else Inr Undefined)"

text \<open>
  The status check (source lines 154 to 170), which always throws. Note that
  \<^verbatim>\<open>result\<close> is the parsed body: \<^verbatim>\<open>result?.value\<close> and \<^verbatim>\<open>result.statusText\<close> are
  properties of that JSON value, not of the response.
\<close>

definition status_error :: "response \<Rightarrow> js_error" where
  "status_error res =
     (case
        and_then (json res) (\<lambda>result.
        and_then (get_member result (ascii ''error'')) (\<lambda>err.
          if truthy err then
            and_then (get_member err (ascii ''message'')) (\<lambda>m.
            and_then (get_member err (ascii ''type'')) (\<lambda>t.
            and_then (get_member err (ascii ''param'')) (\<lambda>p.
            and_then (get_member err (ascii ''code'')) (\<lambda>c.
            and_then (new_OpenAIError m t p c) (\<lambda>e. Inl (Thrown e))))))
          else
            and_then (get_member_opt result (ascii ''value'')) (\<lambda>v.
            and_then (TextDecoder_decode v) (\<lambda>decoded.
            and_then (if decoded \<noteq> [] then Inr decoded
                      else and_then (get_member result (ascii ''statusText'')) to_string) (\<lambda>detail.
            Inl (Error (ascii ''OpenAI API returned an error: '' @ detail)))))))
      of Inl e \<Rightarrow> e | Inr e \<Rightarrow> e)"

text \<open>
  \<^verbatim>\<open>OpenAIStream\<close> (source lines 26 to 202). \<open>fetch\<close> is the network: it answers a
  request with a response, or rejects. \<open>parser\<close> is the event-stream parser. A rejected
  promise is \<open>Inl\<close>.
\<close>

definition OpenAIStream ::
  "config \<Rightarrow> (request \<Rightarrow> js_error + response) \<Rightarrow> (js_string list \<Rightarrow> sse_event list) \<Rightarrow>
   OpenAIModel \<Rightarrow> js_string \<Rightarrow> js_string \<Rightarrow> js_string \<Rightarrow> Message list \<Rightarrow> js_error + byte_stream" where
  "OpenAIStream cfg fetch parser model systemPrompt temperature key messages =
     and_then (fetch (build_request cfg model systemPrompt temperature key messages)) (\<lambda>res.
     if status res \<noteq> 200 then Inl (status_error res)
     else Inr (stream_of (events parser res)))"

section \<open>Events by what they carry\<close>

text \<open>
  The properties below speak of three kinds of events. An event carries the fragment
  \<open>f\<close> when its data parses, \<^verbatim>\<open>choices[0].finish_reason\<close> is \<^verbatim>\<open>null\<close> or absent, and
  \<^verbatim>\<open>choices[0].delta.content\<close> is neither \<^verbatim>\<open>null\<close> nor absent and reads as the
  string \<open>f\<close> (a string content is its own fragment). An event finishes when its data
  parses and \<^verbatim>\<open>choices[0].finish_reason\<close> is neither \<^verbatim>\<open>null\<close> nor absent. An event is
  malformed when \<^verbatim>\<open>JSON.parse\<close> throws on its data: it is \<open>Event (Inl err)\<close>.
\<close>

definition carries_fragment :: "sse_event \<Rightarrow> js_string \<Rightarrow> bool" where
  "carries_fragment e f =
     (case e of
        Event (Inr j) \<Rightarrow>
          (case finish_reason j of Inr r \<Rightarrow> \<not> not_nullish r | Inl err \<Rightarrow> False)
          \<and> (case delta_content j of
                Inr text \<Rightarrow> not_nullish text \<and> to_string text = Inr f
              | Inl err \<Rightarrow> False)
      | _ \<Rightarrow> False)"

definition finishes :: "sse_event \<Rightarrow> bool" where
  "finishes e =
     (case e of
        Event (Inr j) \<Rightarrow> (case finish_reason j of Inr r \<Rightarrow> not_nullish r | Inl err \<Rightarrow> False)
      | _ \<Rightarrow> False)"

text \<open>
  A parsed value lacks the expected shape when reading \<^verbatim>\<open>choices[0].finish_reason\<close>
  throws (no \<^verbatim>\<open>choices\<close>, or no first choice), or when the finish reason is null or
  absent and reading \<^verbatim>\<open>choices[0].delta.content\<close> throws (no \<^verbatim>\<open>delta\<close>).
\<close>

definition lacks_shape :: "js_value \<Rightarrow> bool" where
  "lacks_shape j =
     (case finish_reason j of
        Inl err \<Rightarrow> True
      | Inr r \<Rightarrow> \<not> not_nullish r \<and> (case delta_content j of Inl err \<Rightarrow> True | Inr t \<Rightarrow> False))"

text \<open>
  Sample events in the shape the upstream service sends them:
  \<^verbatim>\<open>{"choices":[{"delta":{"content":f},"finish_reason":null}]}\<close>,
  \<^verbatim>\<open>{"choices":[{"delta":{},"finish_reason":"stop"}]}\<close>, and the closing
  \<^verbatim>\<open>[DONE]\<close>, which is not JSON.
\<close>

definition content_event :: "js_string \<Rightarrow> sse_event" where
  "content_event f =
     Event (Inr (Object [(ascii ''choices'',
       Array [Object [(ascii ''delta'', Object [(ascii ''content'', String f)]),
                      (ascii ''finish_reason'', Null)]])]))"

definition stop_event :: sse_event where
  "stop_event =
     Event (Inr (Object [(ascii ''choices'',
       Array [Object [(ascii ''delta'', Object []),
                      (ascii ''finish_reason'', String (ascii ''stop''))]])]))"

definition done_event :: sse_event where
  "done_event = Event (Inl (SyntaxError ''Unexpected token D in JSON at position 1''))"

section \<open>Auxiliary facts\<close>

lemma and_then_simps [simp]:
  "and_then (Inl e) f = Inl e"
  "and_then (Inr v) f = f v"
  by (simp_all add: and_then_def)

lemma unat_of_char: "unat (of_char c :: 16 word) = of_char c"
proof -
  have "(of_char c :: nat) < 2 ^ LENGTH(16)"
    by (rule less_trans [OF nat_of_char_less_256]) simp
  then have "unat (of_nat (of_char c) :: 16 word) = of_char c"
    by (simp add: unat_of_nat)
  then show ?thesis by (simp add: of_nat_of_char)
qed

lemma of_char_word16_eq_iff [simp]: "((of_char c :: 16 word) = of_char d) = (c = d)"
proof
  assume "(of_char c :: 16 word) = of_char d"
  then have "unat (of_char c :: 16 word) = unat (of_char d :: 16 word)" by simp
  then show "c = d" by (simp add: unat_of_char)
qed simp

lemma ascii_eq_iff [simp]: "(ascii a = ascii b) = (a = b)"
  by (simp add: ascii_def inj_map_eq_map inj_def)

lemma ascii_Nil_iff [simp]: "(ascii a = []) = (a = [])" "([] = ascii a) = (a = [])"
  by (auto simp: ascii_def)

section \<open>The request\<close>

text \<open>
  C6. With \<^verbatim>\<open>OPENAI_API_TYPE\<close> equal to \<^verbatim>\<open>azure\<close>, host \<open>H\<close>, deployment \<open>D\<close> and
  version \<open>V\<close>, the URL is \<open>H/openai/deployments/D/chat/completions?api-version=V\<close>, the
  header \<^verbatim>\<open>api-key\<close> carries the key and there is no \<^verbatim>\<open>Authorization\<close> header. With
  \<^verbatim>\<open>OPENAI_API_TYPE\<close> equal to \<^verbatim>\<open>openai\<close> the URL is \<open>H/v1/chat/completions\<close>, the
  header \<^verbatim>\<open>Authorization\<close> is \<^verbatim>\<open>Bearer\<close> followed by the key, and there is no
  \<^verbatim>\<open>api-key\<close> header. The key is the caller's, or the process-wide default when the
  caller's is empty.
\<close>

theorem endpoint_and_headers:
  "let H = OPENAI_API_HOST cfg; D = AZURE_DEPLOYMENT_ID cfg; V = OPENAI_API_VERSION cfg;
       r = build_request cfg model systemPrompt temperature key messages
   in
     (OPENAI_API_TYPE cfg = ascii ''azure'' \<longrightarrow>
        url r = H @ ascii ''/openai/deployments/'' @ D @ ascii ''/chat/completions?api-version='' @ V
        \<and> map_of (headers r) (ascii ''api-key'') = Some (effective_key cfg key)
        \<and> map_of (headers r) (ascii ''Authorization'') = None)
     \<and> (OPENAI_API_TYPE cfg = ascii ''openai'' \<longrightarrow>
        url r = H @ ascii ''/v1/chat/completions''
        \<and> map_of (headers r) (ascii ''Authorization'') = Some (ascii ''Bearer '' @ effective_key cfg key)
        \<and> map_of (headers r) (ascii ''api-key'') = None)
     \<and> (key \<noteq> [] \<longrightarrow> effective_key cfg key = key)"
  by (simp add: Let_def build_request_def request_url_def request_headers_def
      effective_key_def)

theorem endpoint_and_headers_witness:
  "url (build_request
         \<lparr>OPENAI_API_HOST = ascii ''https://h'', OPENAI_API_TYPE = ascii ''azure'',
          OPENAI_API_VERSION = ascii ''v1'', OPENAI_ORGANIZATION = ascii ''org'',
          AZURE_DEPLOYMENT_ID = ascii ''dep'', env_OPENAI_API_KEY = None\<rparr>
         \<lparr>model_id = ascii ''gpt-4''\<rparr> [] (ascii ''1'') (ascii ''k'') [])
     = ascii ''https://h/openai/deployments/dep/chat/completions?api-version=v1''
   \<and> map_of (headers (build_request
         \<lparr>OPENAI_API_HOST = ascii ''https://h'', OPENAI_API_TYPE = ascii ''openai'',
          OPENAI_API_VERSION = ascii ''v1'', OPENAI_ORGANIZATION = ascii ''org'',
          AZURE_DEPLOYMENT_ID = ascii ''dep'', env_OPENAI_API_KEY = None\<rparr>
         \<lparr>model_id = ascii ''gpt-4''\<rparr> [] (ascii ''1'') (ascii ''k'') [])) (ascii ''Authorization'')
     = Some (ascii ''Bearer k'')
   \<and> map_of (headers (build_request
         \<lparr>OPENAI_API_HOST = ascii ''https://h'', OPENAI_API_TYPE = ascii ''azure'',
          OPENAI_API_VERSION = ascii ''v1'', OPENAI_ORGANIZATION = ascii ''org'',
          AZURE_DEPLOYMENT_ID = ascii ''dep'', env_OPENAI_API_KEY = None\<rparr>
         \<lparr>model_id = ascii ''gpt-4''\<rparr> [] (ascii ''1'') (ascii ''k'') [])) (ascii ''api-key'')
     = Some (ascii ''k'')
   \<and> effective_key
         \<lparr>OPENAI_API_HOST = ascii ''https://h'', OPENAI_API_TYPE = ascii ''azure'',
          OPENAI_API_VERSION = ascii ''v1'', OPENAI_ORGANIZATION = ascii ''org'',
          AZURE_DEPLOYMENT_ID = ascii ''dep'', env_OPENAI_API_KEY = None\<rparr> (ascii ''k'')
     = ascii ''k''"
  using
    endpoint_and_headers [of
      "\<lparr>OPENAI_API_HOST = ascii ''https://h'', OPENAI_API_TYPE = ascii ''azure'',
        OPENAI_API_VERSION = ascii ''v1'', OPENAI_ORGANIZATION = ascii ''org'',
        AZURE_DEPLOYMENT_ID = ascii ''dep'', env_OPENAI_API_KEY = None\<rparr>"
      "\<lparr>model_id = ascii ''gpt-4''\<rparr>" "[]" "ascii ''1''" "ascii ''k''" "[]"]
    endpoint_and_headers [of
      "\<lparr>OPENAI_API_HOST = ascii ''https://h'', OPENAI_API_TYPE = ascii ''openai'',
        OPENAI_API_VERSION = ascii ''v1'', OPENAI_ORGANIZATION = ascii ''org'',
        AZURE_DEPLOYMENT_ID = ascii ''dep'', env_OPENAI_API_KEY = None\<rparr>"
      "\<lparr>model_id = ascii ''gpt-4''\<rparr>" "[]" "ascii ''1''" "ascii ''k''" "[]"]
  by (simp add: Let_def ascii_def)

text \<open>
  C7. Whatever model and temperature the caller passes, and under either flavor, the
  request body has \<^verbatim>\<open>max_tokens\<close> 4000, \<^verbatim>\<open>temperature\<close> 0, \<^verbatim>\<open>stream\<close> true
  and \<^verbatim>\<open>model\<close> \<^verbatim>\<open>gpt-3.5-turbo-16k\<close>.
\<close>

theorem fixed_body_fields:
  "let b = body (build_request cfg model systemPrompt temperature key messages)
   in
     get_member b (ascii ''max_tokens'') = Inr (Number (ascii ''4000''))
     \<and> get_member b (ascii ''temperature'') = Inr (Number (ascii ''0''))
     \<and> get_member b (ascii ''stream'') = Inr (Boolean True)
     \<and> get_member b (ascii ''model'') = Inr (String (ascii ''gpt-3.5-turbo-16k''))"
  by (simp add: Let_def build_request_def request_body_def)

text \<open>
  C8. For every sequence \<open>ms\<close> of caller messages, empty or not, the \<^verbatim>\<open>messages\<close>
  array of the request body is one message with role \<^verbatim>\<open>system\<close> and the rubric as
  content, followed by \<open>ms\<close> itself.
\<close>

theorem messages_prefixed:
  "get_member (body (build_request cfg model systemPrompt temperature key ms)) (ascii ''messages'')
     = Inr (Array (Object [(ascii ''role'', String (ascii ''system'')),
                           (ascii ''content'', String rubric)] # ms))"
  by (simp add: build_request_def request_body_def system_message_def)

text \<open>
  C9. Two calls that differ in \<^verbatim>\<open>systemPrompt\<close> only send the same request and, the
  network answering alike, return the same result.
\<close>

theorem systemPrompt_unused:
  "build_request cfg model systemPrompt temperature key messages
     = build_request cfg model systemPrompt' temperature key messages
   \<and> OpenAIStream cfg fetch parser model systemPrompt temperature key messages
     = OpenAIStream cfg fetch parser model systemPrompt' temperature key messages"
  by (simp add: OpenAIStream_def build_request_def)

section \<open>Responses with a status other than 200\<close>

text \<open>
  C2. When the status is not 200 and the body parses to an object whose \<^verbatim>\<open>error\<close>
  property is an object with \<^verbatim>\<open>message\<close> the string \<open>m\<close>, \<^verbatim>\<open>type\<close> \<open>t\<close>,
  \<^verbatim>\<open>param\<close> \<open>p\<close> and \<^verbatim>\<open>code\<close> \<open>c\<close>, the call fails with an \<^verbatim>\<open>OpenAIError\<close> holding
  exactly these four; being a failure, it returns no stream.
\<close>

theorem upstream_error_reported:
  assumes "fetch (build_request cfg model systemPrompt temperature key messages) = Inr res"
    and "status res \<noteq> 200"
    and "json res = Inr (Object kvs)"
    and "map_of kvs (ascii ''error'') = Some (Object err)"
    and "map_of err (ascii ''message'') = Some (String m)"
    and "map_of err (ascii ''type'') = Some t"
    and "map_of err (ascii ''param'') = Some p"
    and "map_of err (ascii ''code'') = Some c"
  shows "OpenAIStream cfg fetch parser model systemPrompt temperature key messages
           = Inl (Thrown \<lparr>message = m, name = ascii ''OpenAIError'', type = t, param = p, code = c\<rparr>)"
  using assms by (simp add: OpenAIStream_def status_error_def new_OpenAIError_def)

theorem upstream_error_reported_witness:
  "OpenAIStream
     \<lparr>OPENAI_API_HOST = ascii ''https://h'', OPENAI_API_TYPE = ascii ''openai'',
      OPENAI_API_VERSION = [], OPENAI_ORGANIZATION = [], AZURE_DEPLOYMENT_ID = [],
      env_OPENAI_API_KEY = None\<rparr>
     (\<lambda>r. Inr \<lparr>status = 401, statusText = ascii ''Unauthorized'',
               json = Inr (Object [(ascii ''error'',
                 Object [(ascii ''message'', String (ascii ''m'')), (ascii ''type'', String (ascii ''t'')),
                         (ascii ''param'', Null), (ascii ''code'', String (ascii ''c''))])]),
               body_chunks = []\<rparr>)
     (\<lambda>texts. [])
     \<lparr>model_id = ascii ''gpt-4''\<rparr> [] (ascii ''1'') (ascii ''k'') []
   = Inl (Thrown \<lparr>message = ascii ''m'', name = ascii ''OpenAIError'', type = String (ascii ''t''),
                  param = Null, code = String (ascii ''c'')\<rparr>)"
proof -
  let ?err = "[(ascii ''message'', String (ascii ''m'')), (ascii ''type'', String (ascii ''t'')),
               (ascii ''param'', Null), (ascii ''code'', String (ascii ''c''))]"
  let ?res = "\<lparr>status = 401, statusText = ascii ''Unauthorized'',
               json = Inr (Object [(ascii ''error'', Object ?err)]), body_chunks = []\<rparr>"
  show ?thesis
    by (rule upstream_error_reported
          [where res = ?res and kvs = "[(ascii ''error'', Object ?err)]" and err = ?err])
       simp_all
qed

text \<open>
  C3. A response with status 500, status text \<^verbatim>\<open>Internal Server Error\<close> and body
  \<^verbatim>\<open>{"detail":"overloaded"}\<close> makes the call fail with a plain \<^verbatim>\<open>Error\<close> whose message is
  \<^verbatim>\<open>OpenAI API returned an error: undefined\<close>. The message holds neither the status text of
  the response nor anything of its body: \<^verbatim>\<open>result\<close> is the parsed body, and it is the
  body's own \<^verbatim>\<open>value\<close> and \<^verbatim>\<open>statusText\<close> properties that the message is built from.
\<close>

theorem generic_error_message:
  "OpenAIStream
     \<lparr>OPENAI_API_HOST = ascii ''https://h'', OPENAI_API_TYPE = ascii ''openai'',
      OPENAI_API_VERSION = [], OPENAI_ORGANIZATION = [], AZURE_DEPLOYMENT_ID = [],
      env_OPENAI_API_KEY = None\<rparr>
     (\<lambda>r. Inr \<lparr>status = 500, statusText = ascii ''Internal Server Error'',
               json = Inr (Object [(ascii ''detail'', String (ascii ''overloaded''))]),
               body_chunks = []\<rparr>)
     (\<lambda>texts. [])
     \<lparr>model_id = ascii ''gpt-4''\<rparr> [] (ascii ''1'') (ascii ''k'') []
   = Inl (Error (ascii ''OpenAI API returned an error: undefined''))"
  by (simp add: OpenAIStream_def status_error_def get_member_opt_def not_nullish_def
      TextDecoder_decode_def) (simp add: ascii_def)

text \<open>
  More generally, the message does not depend on the response's status text at all, and
  for a body without the properties \<^verbatim>\<open>error\<close>, \<^verbatim>\<open>value\<close> and \<^verbatim>\<open>statusText\<close> it is
  always the same.
\<close>

lemma status_error_ignores_statusText:
  "status_error (res\<lparr>statusText := st\<rparr>) = status_error res"
  by (simp add: status_error_def)

lemma status_error_plain_object:
  assumes "json res = Inr (Object kvs)"
    and "map_of kvs (ascii ''error'') = None"
    and "map_of kvs (ascii ''value'') = None"
    and "map_of kvs (ascii ''statusText'') = None"
  shows "status_error res = Error (ascii ''OpenAI API returned an error: '' @ ascii ''undefined'')"
  using assms
  by (simp add: status_error_def get_member_opt_def not_nullish_def TextDecoder_decode_def)

section \<open>The event handler, case by case\<close>

lemma onParse_fragment:
  assumes "CanCloseOrEnqueue s" and "carries_fragment e f"
  shows "onParse e s = s\<lparr>queue := queue s @ [utf8_encode f]\<rparr>"
proof -
  from assms(2) obtain j r v where e: "e = Event (Inr j)"
    and r: "finish_reason j = Inr r" "\<not> not_nullish r"
    and c: "delta_content j = Inr v" "not_nullish v" "to_string v = Inr f"
    by (auto simp: carries_fragment_def split: sse_event.splits sum.splits)
  from c(2,3) have "TextEncoder_encode v = Inr (utf8_encode f)"
    by (cases v) (simp_all add: TextEncoder_encode_def not_nullish_def)
  with assms(1) e r c(1) show ?thesis
    by (simp add: onParse_try_def controller_enqueue_def)
qed

lemma onParse_finishes:
  assumes "CanCloseOrEnqueue s" and "finishes e"
  shows "onParse e s = s\<lparr>closeRequested := True,
                         state := (if queue s = [] then Closed else Readable)\<rparr>"
proof -
  from assms(2) obtain j r where "e = Event (Inr j)" "finish_reason j = Inr r" "not_nullish r"
    by (auto simp: finishes_def split: sse_event.splits sum.splits)
  with assms(1) show ?thesis
    by (simp add: onParse_try_def controller_close_def)
qed

lemma onParse_malformed: "onParse (Event (Inl err)) s = controller_error err s"
  by (simp add: onParse_try_def)

lemma onParse_try_refused:
  assumes "\<not> CanCloseOrEnqueue s"
  shows "\<exists>err. onParse_try d s = Inl err"
  using assms
  by (auto simp: onParse_try_def and_then_def controller_close_def controller_enqueue_def
      split: sum.splits)

lemma onParse_refused:
  assumes "\<not> CanCloseOrEnqueue s"
  shows "onParse e s = s \<or> (\<exists>err. onParse e s = controller_error err s)"
proof (cases e)
  case (Event d)
  from onParse_try_refused [OF assms] obtain err where "onParse_try d s = Inl err" ..
  with Event show ?thesis by auto
qed simp

lemma onParse_not_readable:
  assumes "state s \<noteq> Readable"
  shows "onParse e s = s"
proof -
  from assms have "\<not> CanCloseOrEnqueue s" by (simp add: CanCloseOrEnqueue_def)
  from onParse_refused [OF this, of e] assms show ?thesis
    by (auto simp: controller_error_def)
qed

section \<open>Reads\<close>

lemma pull_not_readable:
  assumes "state s \<noteq> Readable"
  shows "pull (s, got) = (s, got)"
  using assms by (cases "state s") (simp_all add: pull_def reader_read_def)

lemma pulls_not_readable:
  assumes "state s \<noteq> Readable"
  shows "(pull ^^ k) (s, got) = (s, got)"
  using assms by (induction k) (simp_all add: pull_not_readable)

lemma pull_keeps:
  assumes "pull (s, got) = (s', got')"
  shows "got' @ queue s' = got @ queue s \<and> closeRequested s' = closeRequested s
         \<and> CanCloseOrEnqueue s' = CanCloseOrEnqueue s
         \<and> (state s' = state s \<or> state s = Readable \<and> closeRequested s \<and> state s' = Closed)"
  using assms
  by (cases "state s"; cases "queue s")
     (auto simp: pull_def reader_read_def CanCloseOrEnqueue_def split: if_splits)

lemma pulls_keep:
  assumes "(pull ^^ k) (s, got) = (s', got')"
  shows "got' @ queue s' = got @ queue s \<and> closeRequested s' = closeRequested s
         \<and> CanCloseOrEnqueue s' = CanCloseOrEnqueue s
         \<and> (state s' = state s \<or> state s = Readable \<and> closeRequested s \<and> state s' = Closed)"
  using assms
proof (induction k arbitrary: s' got')
  case 0
  then show ?case by simp
next
  case (Suc k)
  obtain s1 got1 where mid: "(pull ^^ k) (s, got) = (s1, got1)"
    by (cases "(pull ^^ k) (s, got)")
  with Suc.prems have "pull (s1, got1) = (s', got')" by simp
  from pull_keeps [OF this] Suc.IH [OF mid] show ?case by auto
qed

section \<open>Runs of the producer\<close>

lemma start_append:
  "start ks (xs @ ys) sc = start (drop (length xs) ks) ys (start (take (length xs) ks) xs sc)"
proof (induction xs arbitrary: ks sc)
  case Nil
  then show ?case by simp
next
  case (Cons x xs)
  show ?case
  proof (cases ks)
    case Nil
    with Cons.IH [of "[]"] show ?thesis by (cases sc) simp
  next
    case (Cons k ks')
    with Cons.IH [of ks'] show ?thesis by (simp split: prod.splits)
  qed
qed

text \<open>The first step of a run: some reads, then the event.\<close>

lemma start_Cons:
  "\<exists>k s1 got1. (pull ^^ k) (s, got) = (s1, got1)
      \<and> start ks (e # es) (s, got) = start (tl ks) es (onParse e s1, got1)
      \<and> k = (case ks of [] \<Rightarrow> 0 | k # _ \<Rightarrow> k)"
proof (cases ks)
  case Nil
  then show ?thesis by simp
next
  case (Cons k ks')
  obtain s1 got1 where "(pull ^^ k) (s, got) = (s1, got1)"
    by (cases "(pull ^^ k) (s, got)")
  with Cons show ?thesis by simp
qed

lemma start_not_readable:
  assumes "state s \<noteq> Readable"
  shows "start ks es (s, got) = (s, got)"
  using assms
proof (induction es arbitrary: ks)
  case Nil
  then show ?case by simp
next
  case (Cons e es)
  then show ?case
    by (cases ks) (simp_all add: pulls_not_readable onParse_not_readable)
qed


text \<open>
  Once a close has been requested, or the stream is closed or errored, no event adds a
  chunk: what the consumer has and can still get only shrinks, and it shrinks only when the
  stream is errored.
\<close>

lemma start_after_close:
  assumes "\<not> CanCloseOrEnqueue s" and "start ks es (s, got) = (s', got')"
  shows "\<not> CanCloseOrEnqueue s' \<and> prefix (got' @ queue s') (got @ queue s)
         \<and> ((\<exists>err. state s' = Errored err) \<or> got' @ queue s' = got @ queue s)"
  using assms
proof (induction es arbitrary: ks s got)
  case Nil
  then show ?case by simp
next
  case (Cons e es)
  from start_Cons [of s got ks e es] obtain k s1 got1
    where p: "(pull ^^ k) (s, got) = (s1, got1)"
      and st: "start ks (e # es) (s, got) = start (tl ks) es (onParse e s1, got1)"
    by blast
  from pulls_keep [OF p] Cons.prems(1)
  have c1: "\<not> CanCloseOrEnqueue s1" and q1: "got1 @ queue s1 = got @ queue s"
    by simp_all
  from st Cons.prems(2) have run: "start (tl ks) es (onParse e s1, got1) = (s', got')"
    by simp
  from onParse_refused [OF c1, of e] show ?case
  proof
    assume same: "onParse e s1 = s1"
    with Cons.IH [OF _ run] c1 q1 show ?thesis by simp
  next
    assume "\<exists>err. onParse e s1 = controller_error err s1"
    then obtain err where h: "onParse e s1 = controller_error err s1" ..
    show ?thesis
    proof (cases "state s1 = Readable")
      case False
      with h have "onParse e s1 = s1" by (simp add: controller_error_def)
      with Cons.IH [OF _ run] c1 q1 show ?thesis by simp
    next
      case True
      with h have e1: "onParse e s1 = s1\<lparr>queue := [], state := Errored err\<rparr>"
        by (simp add: controller_error_def)
      then have "state (onParse e s1) \<noteq> Readable" by simp
      from start_not_readable [OF this] run
      have "s' = s1\<lparr>queue := [], state := Errored err\<rparr>" and "got' = got1"
        by (simp_all add: e1)
      moreover from q1 have "prefix got1 (got @ queue s)"
        by (metis prefixI)
      ultimately show ?thesis
        by (simp add: CanCloseOrEnqueue_def)
    qed
  qed
qed


section \<open>Encoding and concatenation\<close>




section \<open>Decoding chunk by chunk\<close>

text \<open>
  Because each chunk is decoded on its own, a character whose bytes are cut by a chunk
  boundary does not reach the parser: both parts are replaced by U+FFFD.
\<close>

lemma cut_character_replaced:
  "TextDecoder_decode_chunk [0xC3, 0xA9] = [0xE9]
   \<and> map TextDecoder_decode_chunk [[0xC3], [0xA9]] = [[0xFFFD], [0xFFFD]]"
  by (simp add: TextDecoder_decode_chunk_def first_byte_def strip_bom_def code_units_def)

text \<open>
  Chunks of ASCII bytes are decoded byte for byte, so for a body of ASCII bytes the texts
  fed to the parser are together the text of the body, wherever the boundaries fall.
\<close>

lemma utf8_decode_ascii:
  assumes "\<forall>b\<in>set bs. unat b < 0x80"
  shows "utf8_decode None bs = map unat bs"
  using assms by (induction bs) (simp_all add: first_byte_def)

lemma decode_chunk_ascii:
  assumes "\<forall>b\<in>set chunk. unat b < 0x80"
  shows "TextDecoder_decode_chunk chunk = map (\<lambda>b. of_nat (unat b)) chunk"
proof -
  have "strip_bom (map unat chunk) = map unat chunk"
    using assms by (cases chunk) (auto simp: strip_bom_def)
  moreover have "concat (map code_units (map unat chunk)) = map (\<lambda>b. of_nat (unat b)) chunk"
    using assms by (induction chunk) (simp_all add: code_units_def)
  ultimately show ?thesis
    by (simp add: TextDecoder_decode_chunk_def utf8_decode_ascii [OF assms])
qed

lemma decode_chunks_ascii:
  assumes "\<forall>chunk\<in>set chunks. \<forall>b\<in>set chunk. unat b < 0x80"
  shows "concat (map TextDecoder_decode_chunk chunks) = TextDecoder_decode_chunk (concat chunks)"
proof -
  from assms have "\<forall>b\<in>set (concat chunks). unat b < 0x80" by auto
  then have whole: "TextDecoder_decode_chunk (concat chunks)
      = map (\<lambda>b. of_nat (unat b)) (concat chunks)"
    by (rule decode_chunk_ascii)
  have each: "map TextDecoder_decode_chunk chunks = map (map (\<lambda>b. of_nat (unat b))) chunks"
  proof (rule map_cong [OF refl])
    fix chunk assume "chunk \<in> set chunks"
    with assms have "\<forall>b\<in>set chunk. unat b < 0x80" by blast
    then show "TextDecoder_decode_chunk chunk = map (\<lambda>b. of_nat (unat b)) chunk"
      by (rule decode_chunk_ascii)
  qed
  show ?thesis
    by (simp only: each whole map_concat)
qed

section \<open>Responses with status 200\<close>

lemma carries_fragment_content_event: "carries_fragment (content_event f) f"
  by (simp add: carries_fragment_def content_event_def finish_reason_def delta_content_def
      choices_0_def not_nullish_def)

lemma finishes_stop_event: "finishes stop_event"
  by (simp add: finishes_def stop_event_def finish_reason_def choices_0_def not_nullish_def)





section \<open>Events that fail\<close>

lemma stream_of_error_event:
  assumes run: "start (take (length pre) ks) pre (new_ReadableStream, []) = (s, got)"
    and op: "CanCloseOrEnqueue s"
    and h: "\<And>s. onParse ev s = controller_error e s"
  shows "\<exists>chunks. stream_of (pre @ ev # post) ks = (chunks, Failed e)
           \<and> prefix chunks (got @ queue s)"
proof -
  from start_Cons [of s got "drop (length pre) ks" ev post] obtain k s1 got1
    where p: "(pull ^^ k) (s, got) = (s1, got1)"
      and st: "start (drop (length pre) ks) (ev # post) (s, got)
                 = start (tl (drop (length pre) ks)) post (onParse ev s1, got1)"
    by blast
  from pulls_keep [OF p] op
  have op1: "CanCloseOrEnqueue s1" and q1: "got1 @ queue s1 = got @ queue s"
    by simp_all
  from op1 h [of s1] have e1: "onParse ev s1 = s1\<lparr>queue := [], state := Errored e\<rparr>"
    by (simp add: controller_error_def CanCloseOrEnqueue_def)
  then have "state (onParse ev s1) \<noteq> Readable" by simp
  from start_not_readable [OF this] st e1
  have "start (drop (length pre) ks) (ev # post) (s, got)
          = (s1\<lparr>queue := [], state := Errored e\<rparr>, got1)"
    by simp
  with run have "stream_of (pre @ ev # post) ks = (got1, Failed e)"
    by (simp add: stream_of_def start_append read_to_end_def)
  moreover from q1 have "prefix got1 (got @ queue s)"
    by (metis prefixI)
  ultimately show ?thesis by blast
qed

text \<open>
  C4, as amended. For a 200 response, a data event whose data is not valid JSON and which
  arrives while the stream is still open (no earlier event has closed or errored it)
  makes the output stream fail with the parse error. The consumer receives no chunk beyond
  those enqueued before that event.
\<close>

theorem malformed_event_fails:
  assumes "fetch (build_request cfg model systemPrompt temperature key messages) = Inr res"
    and "status res = 200"
    and "events parser res = pre @ Event (Inl err) # post"
    and "start (take (length pre) ks) pre (new_ReadableStream, []) = (s, got)"
    and "CanCloseOrEnqueue s"
  shows "\<exists>out chunks. OpenAIStream cfg fetch parser model systemPrompt temperature key messages = Inr out
           \<and> out ks = (chunks, Failed err) \<and> prefix chunks (got @ queue s)"
  using assms(1-3) stream_of_error_event [OF assms(4,5) onParse_malformed, of err post]
  by (simp add: OpenAIStream_def)

theorem malformed_event_fails_witness:
  "(case OpenAIStream
      \<lparr>OPENAI_API_HOST = ascii ''https://h'', OPENAI_API_TYPE = ascii ''openai'',
       OPENAI_API_VERSION = [], OPENAI_ORGANIZATION = [], AZURE_DEPLOYMENT_ID = [],
       env_OPENAI_API_KEY = None\<rparr>
      (\<lambda>r. Inr \<lparr>status = 200, statusText = ascii ''OK'', json = Inl (SyntaxError ''not JSON''),
                body_chunks = [[0x64, 0x61, 0x74, 0x61, 0x3A]]\<rparr>)
      (\<lambda>texts. if texts = [] then [] else [content_event (ascii ''Hi''), done_event, content_event (ascii ''Ho'')])
      \<lparr>model_id = ascii ''gpt-4''\<rparr> [] (ascii ''1'') (ascii ''k'') []
    of Inl e \<Rightarrow> None | Inr out \<Rightarrow> Some (snd (out [0, 1])))
   = Some (Failed (SyntaxError ''Unexpected token D in JSON at position 1''))"
proof -
  let ?cfg = "\<lparr>OPENAI_API_HOST = ascii ''https://h'', OPENAI_API_TYPE = ascii ''openai'',
       OPENAI_API_VERSION = [], OPENAI_ORGANIZATION = [], AZURE_DEPLOYMENT_ID = [],
       env_OPENAI_API_KEY = None\<rparr>"
  let ?pre = "[content_event (ascii ''Hi'')]"
  let ?post = "[content_event (ascii ''Ho'')]"
  let ?err = "SyntaxError ''Unexpected token D in JSON at position 1''"
  let ?res = "\<lparr>status = 200, statusText = ascii ''OK'', json = Inl (SyntaxError ''not JSON''),
               body_chunks = [[0x64, 0x61, 0x74, 0x61, 0x3A]]\<rparr>"
  let ?parser = "\<lambda>texts. if texts = [] then []
                  else [content_event (ascii ''Hi''), done_event, content_event (ascii ''Ho'')]"
  let ?s = "\<lparr>state = Readable, queue = [utf8_encode (ascii ''Hi'')], closeRequested = False\<rparr>"
  have op: "CanCloseOrEnqueue ?s"
    by (simp add: CanCloseOrEnqueue_def)
  have run: "start (take (length ?pre) [0, 1]) ?pre (new_ReadableStream, []) = (?s, [])"
    by (simp add: new_ReadableStream_def CanCloseOrEnqueue_def
        onParse_fragment [OF _ carries_fragment_content_event])
  from malformed_event_fails
        [where cfg = ?cfg and fetch = "\<lambda>r. Inr ?res" and parser = ?parser
           and model = "\<lparr>model_id = ascii ''gpt-4''\<rparr>"
           and systemPrompt = "[]" and temperature = "ascii ''1''" and key = "ascii ''k''"
           and messages = "[]" and res = ?res and pre = ?pre and post = ?post and err = ?err
           and ks = "[0, 1]", OF _ _ _ run op]
  show ?thesis by (auto simp: done_event_def events_def)
qed

text \<open>
  C4 as it stands fails on the usual end of a completion: the finishing event
  closes the stream, and the \<^verbatim>\<open>[DONE]\<close> event that follows, which is not JSON, no longer
  fails it. Here the consumer has read the fragment before the finishing event arrives.
\<close>

theorem done_after_finish_ignored:
  "stream_of [content_event (ascii ''Hi''), stop_event, done_event] [0, 1]
     = ([utf8_encode (ascii ''Hi'')], Ended)"
proof -
  let ?s0 = "new_ReadableStream"
  let ?s1 = "\<lparr>state = Readable, queue = [utf8_encode (ascii ''Hi'')], closeRequested = False\<rparr>"
  let ?s2 = "\<lparr>state = Readable, queue = [], closeRequested = False\<rparr>"
  let ?s3 = "\<lparr>state = Closed, queue = [], closeRequested = True\<rparr>"
  have a: "onParse (content_event (ascii ''Hi'')) ?s0 = ?s1"
    by (simp add: new_ReadableStream_def CanCloseOrEnqueue_def
        onParse_fragment [OF _ carries_fragment_content_event])
  have b: "pull (?s1, []) = (?s2, [utf8_encode (ascii ''Hi'')])"
    by (simp add: pull_def reader_read_def)
  have c: "onParse stop_event ?s2 = ?s3"
    by (simp add: CanCloseOrEnqueue_def onParse_finishes [OF _ finishes_stop_event])
  have d: "onParse done_event ?s3 = ?s3"
    by (simp add: onParse_not_readable)
  show ?thesis
    by (simp add: stream_of_def a b c d read_to_end_def)
qed


section \<open>The finishing event\<close>

lemma pulls_open:
  assumes "CanCloseOrEnqueue s" and "(pull ^^ k) (s, got) = (s', got')"
  shows "CanCloseOrEnqueue s' \<and> queue s' = drop k (queue s) \<and> got' = got @ take k (queue s)"
  using assms
proof (induction k arbitrary: s' got')
  case 0
  then show ?case by simp
next
  case (Suc k)
  obtain s1 got1 where mid: "(pull ^^ k) (s, got) = (s1, got1)"
    by (cases "(pull ^^ k) (s, got)")
  from Suc.IH [OF Suc.prems(1) mid]
  have op1: "CanCloseOrEnqueue s1" and q1: "queue s1 = drop k (queue s)"
    and g1: "got1 = got @ take k (queue s)"
    by simp_all
  from Suc.prems(2) mid have step: "pull (s1, got1) = (s', got')" by simp
  show ?case
  proof (cases "queue s1")
    case Nil
    with step op1 have "s' = s1" "got' = got1"
      by (auto simp: pull_def reader_read_def CanCloseOrEnqueue_def)
    with Nil op1 q1 g1 show ?thesis by simp
  next
    case (Cons c q)
    with step op1 have s': "s' = s1\<lparr>queue := q\<rparr>" and g': "got' = got1 @ [c]"
      by (auto simp: pull_def reader_read_def CanCloseOrEnqueue_def)
    from Cons q1 have dk: "drop k (queue s) = c # q" by simp
    then have lt: "k < length (queue s)"
      by (cases "k < length (queue s)") simp_all
    from Cons_nth_drop_Suc [OF lt] dk have c: "c = queue s ! k"
      and q: "q = drop (Suc k) (queue s)"
      by simp_all
    from lt c have "take (Suc k) (queue s) = take k (queue s) @ [c]"
      by (simp add: take_Suc_conv_app_nth)
    with s' g' g1 q op1 show ?thesis
      by (simp add: CanCloseOrEnqueue_def)
  qed
qed

text \<open>With a close requested, enough reads empty the queue and close the stream.\<close>

lemma pulls_drain:
  assumes "state s = Readable" and "closeRequested s" and "queue s \<noteq> []"
    and "length (queue s) \<le> k"
  shows "\<exists>s'. (pull ^^ k) (s, got) = (s', got @ queue s) \<and> state s' = Closed \<and> queue s' = []"
  using assms
proof (induction k arbitrary: s got)
  case 0
  then show ?case by simp
next
  case (Suc k)
  from Suc.prems(3) obtain c q where cq: "queue s = c # q" by (cases "queue s") auto
  let ?s1 = "s\<lparr>queue := q, state := (if q = [] then Closed else Readable)\<rparr>"
  from cq Suc.prems(1,2) have first: "pull (s, got) = (?s1, got @ [c])"
    by (simp add: pull_def reader_read_def)
  have swap: "(pull ^^ Suc k) (s, got) = (pull ^^ k) (pull (s, got))"
    by (simp only: funpow_Suc_right o_apply)
  show ?case
  proof (cases "q = []")
    case True
    then have "state ?s1 \<noteq> Readable" by simp
    from pulls_not_readable [OF this] first swap True cq show ?thesis by simp
  next
    case False
    with cq Suc.prems(2,4) have "state ?s1 = Readable" "closeRequested ?s1" "queue ?s1 \<noteq> []"
      "length (queue ?s1) \<le> k"
      by simp_all
    from Suc.IH [OF this, of "got @ [c]"] first swap cq show ?thesis by simp
  qed
qed

lemma start_reconnects:
  assumes "\<forall>x\<in>set es. x = ReconnectInterval" and "start ks es (s, got) = (s', got')"
  shows "got' @ queue s' = got @ queue s \<and> closeRequested s' = closeRequested s
         \<and> (state s' = state s \<or> state s = Readable \<and> closeRequested s \<and> state s' = Closed)"
  using assms
proof (induction es arbitrary: ks s got)
  case Nil
  then show ?case by simp
next
  case (Cons e es)
  from start_Cons [of s got ks e es] obtain k s1 got1
    where p: "(pull ^^ k) (s, got) = (s1, got1)"
      and st: "start ks (e # es) (s, got) = start (tl ks) es (onParse e s1, got1)"
    by blast
  from Cons.prems(1) have e: "e = ReconnectInterval" and rest: "\<forall>x\<in>set es. x = ReconnectInterval"
    by simp_all
  from st Cons.prems(2) e have "start (tl ks) es (s1, got1) = (s', got')" by simp
  from Cons.IH [OF rest this] pulls_keep [OF p] show ?case by auto
qed

lemma stream_of_finish_event:
  assumes run: "start (take (length pre) ks) pre (new_ReadableStream, []) = (s, got)"
    and op: "CanCloseOrEnqueue s"
    and fin: "finishes fin"
  shows "\<exists>chunks e. stream_of (pre @ fin # post) ks = (chunks, e)
           \<and> prefix chunks (got @ queue s) \<and> e \<noteq> Never
           \<and> (e = Ended \<longrightarrow> chunks = got @ queue s)
           \<and> ((\<forall>x\<in>set post. x = ReconnectInterval)
                \<or> length (queue s) \<le> sum_list (take 2 (drop (length pre) ks))
               \<longrightarrow> chunks = got @ queue s \<and> e = Ended)"
proof -
  let ?ks = "drop (length pre) ks"
  from start_Cons [of s got ?ks fin post] obtain k s1 got1
    where p: "(pull ^^ k) (s, got) = (s1, got1)"
      and st: "start ?ks (fin # post) (s, got) = start (tl ?ks) post (onParse fin s1, got1)"
      and k: "k = (case ?ks of [] \<Rightarrow> 0 | k # _ \<Rightarrow> k)"
    by blast
  from pulls_open [OF op p]
  have op1: "CanCloseOrEnqueue s1" and q1: "queue s1 = drop k (queue s)"
    and g1: "got1 = got @ take k (queue s)"
    by simp_all
  then have all1: "got1 @ queue s1 = got @ queue s" by simp
  let ?s2 = "s1\<lparr>closeRequested := True, state := (if queue s1 = [] then Closed else Readable)\<rparr>"
  from onParse_finishes [OF op1 fin] have s2: "onParse fin s1 = ?s2" .
  have closed2: "\<not> CanCloseOrEnqueue ?s2" by (simp add: CanCloseOrEnqueue_def)
  obtain s3 got3 where rest: "start (tl ?ks) post (?s2, got1) = (s3, got3)"
    by (cases "start (tl ?ks) post (?s2, got1)")
  from run st s2 rest have out: "stream_of (pre @ fin # post) ks = read_to_end (s3, got3)"
    by (simp add: stream_of_def start_append)
  from start_after_close [OF closed2 rest] all1
  have c3: "\<not> CanCloseOrEnqueue s3" and pre3: "prefix (got3 @ queue s3) (got @ queue s)"
    and alt3: "(\<exists>err. state s3 = Errored err) \<or> got3 @ queue s3 = got @ queue s"
    by simp_all
  have general: "prefix (fst (read_to_end (s3, got3))) (got @ queue s)
      \<and> snd (read_to_end (s3, got3)) \<noteq> Never
      \<and> (snd (read_to_end (s3, got3)) = Ended \<longrightarrow> fst (read_to_end (s3, got3)) = got @ queue s)"
    using c3 pre3 alt3
    by (cases "state s3") (auto simp: read_to_end_def CanCloseOrEnqueue_def)
  have quiet: "read_to_end (s3, got3) = (got @ queue s, Ended)"
    if "\<forall>x\<in>set post. x = ReconnectInterval"
  proof -
    from start_reconnects [OF that rest] all1
    have "got3 @ queue s3 = got @ queue s" and "closeRequested s3"
      and "state s3 = Closed \<or> state s3 = Readable"
      by (auto split: if_splits)
    then show ?thesis by (auto simp: read_to_end_def)
  qed
  have prompt: "read_to_end (s3, got3) = (got @ queue s, Ended)"
    if enough: "length (queue s) \<le> sum_list (take 2 ?ks)"
  proof (cases "queue s1 = []")
    case True
    then have "state ?s2 \<noteq> Readable" by simp
    from start_not_readable [OF this] rest have "s3 = ?s2" "got3 = got1" by simp_all
    with True all1 show ?thesis by (simp add: read_to_end_def)
  next
    case False
    note nonempty = this
    show ?thesis
    proof (cases post)
      case Nil
      with rest have "s3 = ?s2" "got3 = got1" by simp_all
      with nonempty all1 show ?thesis by (simp add: read_to_end_def)
    next
      case (Cons e es)
      from start_Cons [of ?s2 got1 "tl ?ks" e es] obtain k' s4 got4
        where p': "(pull ^^ k') (?s2, got1) = (s4, got4)"
          and st': "start (tl ?ks) (e # es) (?s2, got1) = start (tl (tl ?ks)) es (onParse e s4, got4)"
          and k': "k' = (case tl ?ks of [] \<Rightarrow> 0 | k # _ \<Rightarrow> k)"
        by blast
      from k k' have "sum_list (take 2 ?ks) = k + k'"
        by (cases ?ks; cases "tl ?ks") (simp_all add: numeral_2_eq_2)
      with enough q1 have "length (queue ?s2) \<le> k'" by simp
      with pulls_drain [of ?s2 k' got1] nonempty
      obtain s' where "(pull ^^ k') (?s2, got1) = (s', got1 @ queue ?s2)"
        and "state s' = Closed" and "queue s' = []"
        by auto
      with p' have s4: "state s4 = Closed" "queue s4 = []" and g4: "got4 = got1 @ queue s1"
        by simp_all
      from s4 have nr: "state s4 \<noteq> Readable" by simp
      from nr have "state (onParse e s4) \<noteq> Readable" by (simp add: onParse_not_readable)
      from start_not_readable [OF this] st' rest Cons nr
      have "s3 = s4" "got3 = got4" by (simp_all add: onParse_not_readable)
      with s4 g4 all1 show ?thesis by (simp add: read_to_end_def)
    qed
  qed
  from general quiet prompt out show ?thesis
    by (cases "read_to_end (s3, got3)") auto
qed

text \<open>
  C5, as amended. For a 200 response, let a finishing event arrive while the stream is
  still open (no earlier event has finished or failed it), the consumer having received
  \<open>got\<close> with \<open>queue s\<close> still queued. Then the consumer receives no chunk beyond
  these: none for the finishing event and none for any later event. The stream does not
  stay open, and when it ends normally the consumer has received all of them. It does end
  normally, with all of them, when no data event follows, or when the consumer performs
  at least as many reads as there are queued chunks before the next event is handled.
\<close>

theorem finish_event_ends_stream:
  assumes "fetch (build_request cfg model systemPrompt temperature key messages) = Inr res"
    and "status res = 200"
    and "events parser res = pre @ fin # post"
    and "start (take (length pre) ks) pre (new_ReadableStream, []) = (s, got)"
    and "CanCloseOrEnqueue s"
    and "finishes fin"
  shows "\<exists>out chunks e. OpenAIStream cfg fetch parser model systemPrompt temperature key messages = Inr out
           \<and> out ks = (chunks, e)
           \<and> prefix chunks (got @ queue s) \<and> e \<noteq> Never
           \<and> (e = Ended \<longrightarrow> chunks = got @ queue s)
           \<and> ((\<forall>x\<in>set post. x = ReconnectInterval)
                \<or> length (queue s) \<le> sum_list (take 2 (drop (length pre) ks))
               \<longrightarrow> chunks = got @ queue s \<and> e = Ended)"
  using assms(1-3) stream_of_finish_event [OF assms(4-6), of post]
  by (simp add: OpenAIStream_def)

theorem finish_event_ends_stream_witness:
  "(case OpenAIStream
      \<lparr>OPENAI_API_HOST = ascii ''https://h'', OPENAI_API_TYPE = ascii ''openai'',
       OPENAI_API_VERSION = [], OPENAI_ORGANIZATION = [], AZURE_DEPLOYMENT_ID = [],
       env_OPENAI_API_KEY = None\<rparr>
      (\<lambda>r. Inr \<lparr>status = 200, statusText = ascii ''OK'', json = Inl (SyntaxError ''not JSON''),
                body_chunks = [[0x64, 0x61, 0x74, 0x61, 0x3A]]\<rparr>)
      (\<lambda>texts. if texts = [] then [] else [content_event (ascii ''Hi''), stop_event, done_event])
      \<lparr>model_id = ascii ''gpt-4''\<rparr> [] (ascii ''1'') (ascii ''k'') []
    of Inl e \<Rightarrow> None | Inr out \<Rightarrow> Some (out [0, 0, 1]))
   = Some ([utf8_encode (ascii ''Hi'')], Ended)"
proof -
  let ?cfg = "\<lparr>OPENAI_API_HOST = ascii ''https://h'', OPENAI_API_TYPE = ascii ''openai'',
       OPENAI_API_VERSION = [], OPENAI_ORGANIZATION = [], AZURE_DEPLOYMENT_ID = [],
       env_OPENAI_API_KEY = None\<rparr>"
  let ?pre = "[content_event (ascii ''Hi'')]"
  let ?res = "\<lparr>status = 200, statusText = ascii ''OK'', json = Inl (SyntaxError ''not JSON''),
               body_chunks = [[0x64, 0x61, 0x74, 0x61, 0x3A]]\<rparr>"
  let ?parser = "\<lambda>texts. if texts = [] then []
                  else [content_event (ascii ''Hi''), stop_event, done_event]"
  let ?s = "\<lparr>state = Readable, queue = [utf8_encode (ascii ''Hi'')], closeRequested = False\<rparr>"
  have op: "CanCloseOrEnqueue ?s"
    by (simp add: CanCloseOrEnqueue_def)
  have run: "start (take (length ?pre) [0, 0, 1]) ?pre (new_ReadableStream, []) = (?s, [])"
    by (simp add: new_ReadableStream_def CanCloseOrEnqueue_def
        onParse_fragment [OF _ carries_fragment_content_event])
  have enough: "length (queue ?s) \<le> sum_list (take 2 (drop (length ?pre) [0, 0, 1::nat]))"
    by (simp add: numeral_2_eq_2)
  from finish_event_ends_stream
        [where cfg = ?cfg and fetch = "\<lambda>r. Inr ?res" and parser = ?parser
           and model = "\<lparr>model_id = ascii ''gpt-4''\<rparr>"
           and systemPrompt = "[]" and temperature = "ascii ''1''" and key = "ascii ''k''"
           and messages = "[]" and res = ?res and pre = ?pre and post = "[done_event]"
           and fin = stop_event and ks = "[0, 0, 1]", OF _ _ _ run op finishes_stop_event]
    enough
  show ?thesis by (auto simp: events_def)
qed

text \<open>
  C5 as it stands fails when the stream has already failed: the finishing event then does
  not end it normally.
\<close>

theorem finish_after_failure:
  "stream_of [done_event, stop_event] []
     = ([], Failed (SyntaxError ''Unexpected token D in JSON at position 1''))
   \<and> finishes stop_event"
proof -
  let ?e = "SyntaxError ''Unexpected token D in JSON at position 1''"
  let ?s1 = "\<lparr>state = Errored ?e, queue = [], closeRequested = False\<rparr>"
  have a: "onParse done_event new_ReadableStream = ?s1"
    by (simp add: done_event_def onParse_try_def controller_error_def new_ReadableStream_def)
  have b: "onParse stop_event ?s1 = ?s1"
    by (simp add: onParse_not_readable)
  show ?thesis
    by (simp add: stream_of_def a b read_to_end_def finishes_stop_event)
qed

text \<open>
  Outside the amended statement: a data event that follows the finishing event while
  chunks are still queued errors the stream, and the queued chunks are lost. With the
  usual closing \<^verbatim>\<open>[DONE]\<close> and a consumer that has not read yet:
\<close>

lemma unread_chunks_lost:
  "stream_of [content_event (ascii ''Hi''), stop_event, done_event] []
     = ([], Failed (SyntaxError ''Unexpected token D in JSON at position 1''))"
proof -
  let ?e = "SyntaxError ''Unexpected token D in JSON at position 1''"
  let ?s1 = "\<lparr>state = Readable, queue = [utf8_encode (ascii ''Hi'')], closeRequested = False\<rparr>"
  let ?s2 = "\<lparr>state = Readable, queue = [utf8_encode (ascii ''Hi'')], closeRequested = True\<rparr>"
  let ?s3 = "\<lparr>state = Errored ?e, queue = [], closeRequested = True\<rparr>"
  have a: "onParse (content_event (ascii ''Hi'')) new_ReadableStream = ?s1"
    by (simp add: new_ReadableStream_def CanCloseOrEnqueue_def
        onParse_fragment [OF _ carries_fragment_content_event])
  have b: "onParse stop_event ?s1 = ?s2"
    by (simp add: CanCloseOrEnqueue_def onParse_finishes [OF _ finishes_stop_event])
  have c: "onParse done_event ?s2 = ?s3"
    by (simp add: done_event_def onParse_try_def controller_error_def)
  show ?thesis
    by (simp add: stream_of_def a b c read_to_end_def)
qed

section \<open>Events of an unexpected shape\<close>

lemma lacks_shape_throws:
  assumes "lacks_shape j"
  shows "\<exists>e. \<forall>s. onParse_try (Inr j) s = Inl e"
proof (cases "finish_reason j")
  case (Inl e)
  then have "\<forall>s. onParse_try (Inr j) s = Inl e" by (simp add: onParse_try_def)
  then show ?thesis ..
next
  case (Inr r)
  with assms obtain e where "\<not> not_nullish r" and "delta_content j = Inl e"
    by (auto simp: lacks_shape_def split: sum.splits)
  with Inr have "\<forall>s. onParse_try (Inr j) s = Inl e" by (simp add: onParse_try_def)
  then show ?thesis ..
qed

lemma handled_has_shape:
  assumes "onParse_try (Inr j) s = Inr s'"
  shows "\<not> lacks_shape j \<and> (finishes (Event (Inr j)) \<or> (\<exists>t. delta_content j = Inr t))"
  using assms
  by (auto simp: onParse_try_def lacks_shape_def finishes_def and_then_def
      split: sum.splits if_splits)

lemma lacks_shape_no_choices:
  assumes "map_of kvs (ascii ''choices'') = None"
  shows "lacks_shape (Object kvs)"
  using assms by (simp add: lacks_shape_def finish_reason_def choices_0_def)

lemma lacks_shape_empty_choices:
  assumes "map_of kvs (ascii ''choices'') = Some (Array [])"
  shows "lacks_shape (Object kvs)"
  using assms by (simp add: lacks_shape_def finish_reason_def choices_0_def)

lemma lacks_shape_no_delta:
  assumes "map_of kvs (ascii ''choices'') = Some (Array (Object c # cs))"
    and "map_of c (ascii ''finish_reason'') = None \<or> map_of c (ascii ''finish_reason'') = Some Null"
    and "map_of c (ascii ''delta'') = None"
  shows "lacks_shape (Object kvs)"
  using assms
  by (auto simp: lacks_shape_def finish_reason_def delta_content_def choices_0_def not_nullish_def)

text \<open>
  C10, as amended. For a 200 response, a data event whose data is valid JSON but lacks the
  expected shape, arriving while the stream is still open (no earlier event has finished or
  failed it), makes the output stream fail: it is handled exactly as a malformed event
  carrying the thrown error would be, in every state of the stream. A value without
  \<^verbatim>\<open>choices\<close>, with an empty \<^verbatim>\<open>choices\<close> array, or whose first choice has no
  \<^verbatim>\<open>delta\<close> and no finish reason lacks the shape. An event is handled without error only
  if its \<^verbatim>\<open>choices[0].finish_reason\<close> is set or its \<^verbatim>\<open>choices[0].delta.content\<close> can
  be read.
\<close>

theorem shape_error_fails:
  assumes "fetch (build_request cfg model systemPrompt temperature key messages) = Inr res"
    and "status res = 200"
    and "events parser res = pre @ Event (Inr j) # post"
    and "start (take (length pre) ks) pre (new_ReadableStream, []) = (s, got)"
    and "CanCloseOrEnqueue s"
    and "lacks_shape j"
  shows "(\<exists>out chunks e. OpenAIStream cfg fetch parser model systemPrompt temperature key messages = Inr out
            \<and> out ks = (chunks, Failed e) \<and> prefix chunks (got @ queue s)
            \<and> (\<forall>s'. onParse (Event (Inr j)) s' = onParse (Event (Inl e)) s'))
         \<and> (map_of kvs (ascii ''choices'') = None \<longrightarrow> lacks_shape (Object kvs))
         \<and> (map_of kvs (ascii ''choices'') = Some (Array []) \<longrightarrow> lacks_shape (Object kvs))
         \<and> (map_of kvs (ascii ''choices'') = Some (Array (Object c # cs))
              \<and> (map_of c (ascii ''finish_reason'') = None
                   \<or> map_of c (ascii ''finish_reason'') = Some Null)
              \<and> map_of c (ascii ''delta'') = None \<longrightarrow> lacks_shape (Object kvs))
         \<and> (onParse_try (Inr j') s1 = Inr s2 \<longrightarrow>
              \<not> lacks_shape j'
              \<and> (finishes (Event (Inr j')) \<or> (\<exists>t. delta_content j' = Inr t)))"
proof -
  from lacks_shape_throws [OF assms(6)] obtain e
    where thrown: "\<And>s. onParse_try (Inr j) s = Inl e"
    by blast
  then have same: "\<And>s. onParse (Event (Inr j)) s = controller_error e s"
    by simp
  from stream_of_error_event [OF assms(4,5) same, of post] assms(1-3) same
  have "\<exists>out chunks e. OpenAIStream cfg fetch parser model systemPrompt temperature key messages = Inr out
            \<and> out ks = (chunks, Failed e) \<and> prefix chunks (got @ queue s)
            \<and> (\<forall>s'. onParse (Event (Inr j)) s' = onParse (Event (Inl e)) s')"
    by (auto simp: OpenAIStream_def onParse_try_def)
  then show ?thesis
    using lacks_shape_no_choices [of kvs] lacks_shape_empty_choices [of kvs]
      lacks_shape_no_delta [of kvs c cs] handled_has_shape [of j' s1 s2]
    by blast
qed

theorem shape_error_fails_witness:
  "(case OpenAIStream
      \<lparr>OPENAI_API_HOST = ascii ''https://h'', OPENAI_API_TYPE = ascii ''openai'',
       OPENAI_API_VERSION = [], OPENAI_ORGANIZATION = [], AZURE_DEPLOYMENT_ID = [],
       env_OPENAI_API_KEY = None\<rparr>
      (\<lambda>r. Inr \<lparr>status = 200, statusText = ascii ''OK'', json = Inl (SyntaxError ''not JSON''),
                body_chunks = [[0x64, 0x61, 0x74, 0x61, 0x3A]]\<rparr>)
      (\<lambda>texts. if texts = [] then [] else [content_event (ascii ''Hi''),
                          Event (Inr (Object [(ascii ''choices'', Array [])])),
                          content_event (ascii ''Ho'')])
      \<lparr>model_id = ascii ''gpt-4''\<rparr> [] (ascii ''1'') (ascii ''k'') []
    of Inl e \<Rightarrow> None | Inr out \<Rightarrow> Some (snd (out [0, 1])))
   = Some (Failed (TypeError ''Cannot read properties of undefined''))
   \<and> lacks_shape (Object [])
   \<and> lacks_shape (Object [(ascii ''choices'', Array [])])
   \<and> lacks_shape (Object [(ascii ''choices'', Array [Object [(ascii ''finish_reason'', Null)]])])
   \<and> \<not> lacks_shape (Object [(ascii ''choices'',
          Array [Object [(ascii ''delta'', Object [(ascii ''content'', String (ascii ''Hi''))]),
                         (ascii ''finish_reason'', Null)]])])"
proof -
  let ?cfg = "\<lparr>OPENAI_API_HOST = ascii ''https://h'', OPENAI_API_TYPE = ascii ''openai'',
       OPENAI_API_VERSION = [], OPENAI_ORGANIZATION = [], AZURE_DEPLOYMENT_ID = [],
       env_OPENAI_API_KEY = None\<rparr>"
  let ?pre = "[content_event (ascii ''Hi'')]"
  let ?post = "[content_event (ascii ''Ho'')]"
  let ?j = "Object [(ascii ''choices'', Array [])]"
  let ?c = "[(ascii ''finish_reason'', Null)]"
  let ?good = "Object [(ascii ''choices'',
          Array [Object [(ascii ''delta'', Object [(ascii ''content'', String (ascii ''Hi''))]),
                         (ascii ''finish_reason'', Null)]])]"
  let ?res = "\<lparr>status = 200, statusText = ascii ''OK'', json = Inl (SyntaxError ''not JSON''),
               body_chunks = [[0x64, 0x61, 0x74, 0x61, 0x3A]]\<rparr>"
  let ?parser = "\<lambda>texts. if texts = [] then []
                  else [content_event (ascii ''Hi''),
                        Event (Inr (Object [(ascii ''choices'', Array [])])),
                        content_event (ascii ''Ho'')]"
  let ?s = "\<lparr>state = Readable, queue = [utf8_encode (ascii ''Hi'')], closeRequested = False\<rparr>"
  let ?s' = "\<lparr>state = Readable, queue = [utf8_encode (ascii ''Hi''), utf8_encode (ascii ''Hi'')],
               closeRequested = False\<rparr>"
  have op: "CanCloseOrEnqueue ?s"
    by (simp add: CanCloseOrEnqueue_def)
  have run: "start (take (length ?pre) [0, 1]) ?pre (new_ReadableStream, []) = (?s, [])"
    by (simp add: new_ReadableStream_def CanCloseOrEnqueue_def
        onParse_fragment [OF _ carries_fragment_content_event])
  have bad: "lacks_shape ?j"
    by (simp add: lacks_shape_def finish_reason_def choices_0_def)
  have thrown: "onParse (Event (Inr ?j)) new_ReadableStream
      = \<lparr>state = Errored (TypeError ''Cannot read properties of undefined''), queue = [],
         closeRequested = False\<rparr>"
    by (simp add: onParse_try_def finish_reason_def choices_0_def controller_error_def
        new_ReadableStream_def)
  have handled: "onParse_try (Inr ?good) ?s = Inr ?s'"
    by (simp add: onParse_try_def finish_reason_def delta_content_def choices_0_def
        not_nullish_def TextEncoder_encode_def controller_enqueue_def CanCloseOrEnqueue_def)
  from shape_error_fails
        [where cfg = ?cfg and fetch = "\<lambda>r. Inr ?res" and parser = ?parser
           and model = "\<lparr>model_id = ascii ''gpt-4''\<rparr>"
           and systemPrompt = "[]" and temperature = "ascii ''1''" and key = "ascii ''k''"
           and messages = "[]" and res = ?res and pre = ?pre and post = ?post and j = ?j
           and ks = "[0, 1]" and kvs = "[]" and j' = ?good and ?s1.0 = ?s and ?s2.0 = ?s'
           and c = ?c and cs = "[]",
         OF _ _ _ run op bad]
  obtain out chunks e
    where o: "OpenAIStream ?cfg (\<lambda>r. Inr ?res) ?parser \<lparr>model_id = ascii ''gpt-4''\<rparr> [] (ascii ''1'')
                (ascii ''k'') [] = Inr out"
      and f: "out [0, 1] = (chunks, Failed e)"
      and same: "\<And>s'. onParse (Event (Inr ?j)) s' = onParse (Event (Inl e)) s'"
      and shapes: "lacks_shape (Object [])"
      and good: "\<not> lacks_shape ?good"
    using handled by (auto simp: events_def)
  from same [of new_ReadableStream] thrown
  have "e = TypeError ''Cannot read properties of undefined''"
    by (simp add: onParse_try_def controller_error_def new_ReadableStream_def)
  with o f shapes good bad show ?thesis
    by (simp add: lacks_shape_no_delta)
qed

text \<open>
  C10 as it stands fails once the stream has been closed: an event of the wrong shape that
  follows the finishing event no longer fails the stream.
\<close>

theorem shape_error_after_finish:
  "stream_of [stop_event, Event (Inr (Object [(ascii ''choices'', Array [])]))] [] = ([], Ended)
   \<and> lacks_shape (Object [(ascii ''choices'', Array [])])"
proof -
  let ?bad = "Event (Inr (Object [(ascii ''choices'', Array [])]))"
  let ?s1 = "\<lparr>state = Closed, queue = [], closeRequested = True\<rparr>"
  have a: "onParse stop_event new_ReadableStream = ?s1"
    using onParse_finishes [OF _ finishes_stop_event, of new_ReadableStream]
    by (simp add: new_ReadableStream_def CanCloseOrEnqueue_def)
  have b: "onParse ?bad ?s1 = ?s1"
    by (rule onParse_not_readable) simp
  have run: "start [] [stop_event, ?bad] (new_ReadableStream, []) = (?s1, [])"
    by (simp only: start.simps prod.case a b)
  have "stream_of [stop_event, ?bad] [] = ([], Ended)"
    unfolding stream_of_def run by (simp add: read_to_end_def)
  then show ?thesis
    by (simp add: lacks_shape_empty_choices)
qed

end
